theory Spec2Isabelle
  imports Main "HOL-Library.Multiset"
begin

section \<open>Data model\<close>

text \<open>
  The server keeps users and tasks in two document collections (models/User.js and
  models/Task.js). Object ids are the strings that \<open>user.id\<close> and
  \<open>task.employeeId.toString()\<close> compare; they are taken to be well formed, so the
  cast of a request parameter to an object id is not a source of failure here.
  A \<open>Date\<close> is its number of milliseconds since the epoch.

  A string is the list of its UTF-16 code units, as \<open>length\<close>, \<open>includes\<close>, \<open>trim\<close>
  and \<open>toLowerCase\<close> see it. The strings of the model are those whose code units are
  below 256 (Latin-1): a \<open>char\<close> is such a code unit, \<open>of_char\<close> its number.
\<close>

type_synonym objectId = string
type_synonym date = int

text \<open>
  \<open>Employee\<close> is the projection \<open>select: 'name department'\<close> that \<open>populate\<close> puts
  in place of \<open>employeeId\<close> and that \<open>getTasks\<close> sends as \<open>task.employee\<close>;
  a \<open>User\<close> document has these fields and the credentials.
\<close>

record Employee =
  user_id :: objectId
  name :: string
  department :: string

record User = Employee +
  email :: string
  password :: string
  role :: string

text \<open>
  The fields every task has, on the server and in the JSON the client reads.
  \<open>description\<close> and \<open>dueDate\<close> are optional in TaskSchema.
\<close>

record TaskFields =
  task_id :: objectId
  title :: string
  description :: "string option"
  status :: string
  priority :: string
  dueDate :: "date option"
  createdAt :: date

text \<open>
  A stored task refers to its owner by \<open>employeeId\<close> (type \<open>objectId Task\<close>); after
  \<open>populate\<close> the same field holds the owner's projection, or null when no such user
  exists (type \<open>Employee option Task\<close>). \<open>TaskView\<close> is the object \<open>getTasks\<close>
  sends to the admin dashboard.
\<close>

record 'e Task = TaskFields +
  employeeId :: 'e

record TaskView = TaskFields +
  employee :: Employee

record Store =
  users :: "User list"
  tasks :: "objectId Task list"

section \<open>Errors\<close>

text \<open>
  What a controller passes to \<open>next\<close> or throws: an \<open>ErrorResponse\<close> with its message
  and status code (utils/errorResponse.js); of mongoose, a validation error with the
  messages of the validators that failed, a cast error, and a duplicate key error
  (code 11000); the TypeError of reading a property of null, and any other \<open>Error\<close> a
  library throws, each with its message.
\<close>

datatype error =
    ErrorResponse string nat
  | ValidationError "string list"
  | CastError
  | DuplicateKey
  | TypeError string
  | Error string

definition cannot_read :: "string \<Rightarrow> string" where
  "cannot_read property =
     ''Cannot read properties of null (reading '' @ [CHR 0x27] @ property @ [CHR 0x27] @ '')''"

text \<open>
  middleware/errorHandler.js: the status code and the message of the response. The
  messages of a validation error go through \<open>new ErrorResponse(message, 400)\<close> as an
  array, which the constructor of \<open>Error\<close> turns into one string, joined by commas.
  An error without a status code is answered with 500, one without a message with
  \<open>Server Error\<close>.
\<close>

fun join_comma :: "string list \<Rightarrow> string" where
  "join_comma [] = []"
| "join_comma [m] = m"
| "join_comma (m # ms) = m @ '','' @ join_comma ms"

definition respond :: "nat option \<Rightarrow> string \<Rightarrow> nat \<times> string" where
  "respond statusCode message =
     (case statusCode of None \<Rightarrow> 500 | Some c \<Rightarrow> if c = 0 then 500 else c,
      if message = [] then ''Server Error'' else message)"

fun errorHandler :: "error \<Rightarrow> nat \<times> string" where
  "errorHandler (ErrorResponse m c) = respond (Some c) m"
| "errorHandler (ValidationError ms) = respond (Some 400) (join_comma ms)"
| "errorHandler CastError = respond (Some 404) ''Resource not found''"
| "errorHandler DuplicateKey = respond (Some 400) ''Duplicate field value entered''"
| "errorHandler (TypeError m) = respond None m"
| "errorHandler (Error m) = respond None m"

section \<open>JavaScript helpers\<close>

text \<open>A string that may be absent is truthy when it is present and not empty.\<close>

fun truthy :: "string option \<Rightarrow> bool" where
  "truthy None = False"
| "truthy (Some s) = (s \<noteq> [])"

text \<open>
  A field of a JSON request body: a string, or a value that is not a string. Of the
  latter, \<open>Falsy\<close> is one that \<open>!v\<close> refuses (the field is absent, or is null, false or
  0), and \<open>Truthy x\<close> is any other (a number, true, an object, an array), \<open>x\<close> standing
  for it.
\<close>

datatype 'a jsvalue = Str string | Falsy | Truthy 'a

fun truthy_value :: "'a jsvalue \<Rightarrow> bool" where
  "truthy_value (Str s) = (s \<noteq> [])"
| "truthy_value Falsy = False"
| "truthy_value (Truthy x) = True"

text \<open>
  \<open>String.prototype.trim\<close>: the white space and line terminators among the code units
  below 256 are tab, line feed, vertical tab, form feed, carriage return, space and
  no-break space.
\<close>

definition isSpace :: "char \<Rightarrow> bool" where
  "isSpace c =
     (c \<in> set [CHR 0x09, CHR 0x0A, CHR 0x0B, CHR 0x0C, CHR 0x0D, CHR '' '', CHR 0xA0])"

definition trim :: "string \<Rightarrow> string" where
  "trim s = rev (dropWhile isSpace (rev (dropWhile isSpace s)))"

text \<open>\<open>Model.findById\<close>: the first document with the id.\<close>

definition User_findById :: "User list \<Rightarrow> objectId \<Rightarrow> User option" where
  "User_findById us i = find (\<lambda>u. user_id u = i) us"

definition Task_findById :: "objectId Task list \<Rightarrow> objectId \<Rightarrow> objectId Task option" where
  "Task_findById ts i = find (\<lambda>t. task_id t = i) ts"

section \<open>controllers/auth.js\<close>

text \<open>
  The body of the response of \<open>sendTokenResponse\<close>: the public fields of the user and
  the signed token. The password hash is not part of it.
\<close>

record responseData =
  res_id :: objectId
  res_name :: string
  res_email :: string
  res_role :: string
  res_department :: string
  token :: string

text \<open>
  \<open>getSignedJwtToken\<close> (jwt.sign with the server's secret) is a parameter. The result is
  the status code and the body.
\<close>

definition sendTokenResponse :: "(User \<Rightarrow> string) \<Rightarrow> User \<Rightarrow> nat \<Rightarrow> nat \<times> responseData" where
  "sendTokenResponse getSignedJwtToken user statusCode =
     (statusCode,
      \<lparr>res_id = user_id user, res_name = name user, res_email = email user,
       res_role = role user, res_department = department user,
       token = getSignedJwtToken user\<rparr>)"

text \<open>
  \<open>matchPassword\<close> is \<open>bcrypt.compare(enteredPassword, this.password)\<close>. The comparison
  of bcrypt is a parameter: it answers whether the entered value matches the hash, or
  rejects with an error (nothing in \<open>login\<close> checks that the entered value is a
  string).
\<close>

definition matchPassword ::
  "('a jsvalue \<Rightarrow> string \<Rightarrow> error + bool) \<Rightarrow> User \<Rightarrow> 'a jsvalue \<Rightarrow> error + bool" where
  "matchPassword bcrypt_compare user enteredPassword =
     bcrypt_compare enteredPassword (password user)"

text \<open>
  \<open>User.findOne({ email })\<close>: for a string, the first user with that email; what
  mongoose makes of a filter value that is not a string is the parameter \<open>query\<close>.
\<close>

definition User_findOne ::
  "(User list \<Rightarrow> 'a jsvalue \<Rightarrow> error + User option) \<Rightarrow> User list \<Rightarrow> 'a jsvalue \<Rightarrow>
   error + User option" where
  "User_findOne query us v =
     (case v of Str e \<Rightarrow> Inr (find (\<lambda>u. email u = e) us) | _ \<Rightarrow> query us v)"

text \<open>
  \<open>login\<close>, with the email and the password of the request body. An error that
  \<open>findOne\<close> or \<open>matchPassword\<close> throws goes to the error handler (asyncHandler).
\<close>

definition login ::
  "('a jsvalue \<Rightarrow> string \<Rightarrow> error + bool) \<Rightarrow> (User \<Rightarrow> string) \<Rightarrow>
   (User list \<Rightarrow> 'a jsvalue \<Rightarrow> error + User option) \<Rightarrow> User list \<Rightarrow>
   'a jsvalue \<Rightarrow> 'a jsvalue \<Rightarrow> error + nat \<times> responseData" where
  "login bcrypt_compare getSignedJwtToken query us req_email req_password =
     (if \<not> truthy_value req_email \<or> \<not> truthy_value req_password
      then Inl (ErrorResponse ''Please provide an email and password'' 400)
      else
        (case User_findOne query us req_email of
           Inl err \<Rightarrow> Inl err
         | Inr None \<Rightarrow> Inl (ErrorResponse ''Invalid credentials'' 401)
         | Inr (Some user) \<Rightarrow>
             (case matchPassword bcrypt_compare user req_password of
                Inl err \<Rightarrow> Inl err
              | Inr isMatch \<Rightarrow>
                  if \<not> isMatch
                  then Inl (ErrorResponse ''Invalid credentials'' 401)
                  else Inr (sendTokenResponse getSignedJwtToken user 200))))"

section \<open>controllers/tasks.js\<close>

text \<open>
  \<open>getEmployeeTasks\<close>: \<open>user\<close> is \<open>req.user\<close>, the document the \<open>protect\<close> middleware
  loaded for the bearer token; \<open>i\<close> is \<open>req.params.id\<close>.
\<close>

definition getEmployeeTasks :: "Store \<Rightarrow> User \<Rightarrow> objectId \<Rightarrow> error + objectId Task list" where
  "getEmployeeTasks st user i =
     (case User_findById (users st) i of
        None \<Rightarrow> Inl (ErrorResponse (''No user with the id of '' @ i) 404)
      | Some _ \<Rightarrow>
          if role user \<noteq> ''admin'' \<and> user_id user \<noteq> i
          then Inl (ErrorResponse ''Not authorized to access these tasks'' 401)
          else Inr (filter (\<lambda>t. employeeId t = i) (tasks st)))"

text \<open>
  \<open>Task.findByIdAndUpdate(id, req.body, { new: true, runValidators: true })\<close> is
  mongoose's. \<open>updateTask\<close> takes it as the parameter \<open>findByIdAndUpdate\<close>, for request
  bodies of any kind: given the collection, the id and the body, it throws (a body that
  does not cast to the schema, or that a validator of TaskSchema refuses) and writes
  nothing, or it answers the updated document (or null) and the collection after the
  update. The store changes one document: the first that matches.
\<close>

fun updateOne :: "('a \<Rightarrow> bool) \<Rightarrow> ('a \<Rightarrow> 'a) \<Rightarrow> 'a list \<Rightarrow> 'a list" where
  "updateOne P f [] = []"
| "updateOne P f (x # xs) = (if P x then f x # xs else x # updateOne P f xs)"

fun deleteOne :: "('a \<Rightarrow> bool) \<Rightarrow> 'a list \<Rightarrow> 'a list" where
  "deleteOne P [] = []"
| "deleteOne P (x # xs) = (if P x then xs else x # deleteOne P xs)"

text \<open>
  \<open>updateTask\<close> and \<open>deleteTask\<close>: the response, and the store after the request.
\<close>

definition updateTask ::
  "(objectId Task list \<Rightarrow> objectId \<Rightarrow> 'b \<Rightarrow> error + objectId Task option \<times> objectId Task list) \<Rightarrow>
   Store \<Rightarrow> User \<Rightarrow> objectId \<Rightarrow> 'b \<Rightarrow> (error + objectId Task option) \<times> Store" where
  "updateTask findByIdAndUpdate st user i body =
     (case Task_findById (tasks st) i of
        None \<Rightarrow> (Inl (ErrorResponse (''No task with the id of '' @ i) 404), st)
      | Some task \<Rightarrow>
          if role user \<noteq> ''admin'' \<and> user_id user \<noteq> employeeId task
          then (Inl (ErrorResponse ''Not authorized to update this task'' 401), st)
          else
            (case findByIdAndUpdate (tasks st) i body of
               Inl e \<Rightarrow> (Inl e, st)
             | Inr (task', ts') \<Rightarrow> (Inr task', st\<lparr>tasks := ts'\<rparr>)))"

definition deleteTask :: "Store \<Rightarrow> User \<Rightarrow> objectId \<Rightarrow> (error + unit) \<times> Store" where
  "deleteTask st user i =
     (case Task_findById (tasks st) i of
        None \<Rightarrow> (Inl (ErrorResponse (''No task with the id of '' @ i) 404), st)
      | Some task \<Rightarrow>
          if role user \<noteq> ''admin'' \<and> user_id user \<noteq> employeeId task
          then (Inl (ErrorResponse ''Not authorized to delete this task'' 401), st)
          else (Inr (), st\<lparr>tasks := deleteOne (\<lambda>t. task_id t = i) (tasks st)\<rparr>))"

text \<open>
  What \<open>findByIdAndUpdate\<close> does with the bodies \<open>{ status: v }\<close>, \<open>v\<close> a string: the
  path \<open>status\<close> of TaskSchema has no setter and the one validator
  \<open>enum: ['To Do', 'In Progress', 'Review', 'Done']\<close>, whose message is the default one
  of mongoose.
\<close>

record StatusBody =
  body_status :: string

definition status_enum :: "string list" where
  "status_enum = [''To Do'', ''In Progress'', ''Review'', ''Done'']"

definition enumMessage :: "string \<Rightarrow> string \<Rightarrow> string" where
  "enumMessage v path =
     [CHR 0x60] @ v @ [CHR 0x60] @ '' is not a valid enum value for path '' @
     [CHR 0x60] @ path @ [CHR 0x60] @ ''.''"

definition setStatus :: "StatusBody \<Rightarrow> objectId Task \<Rightarrow> objectId Task" where
  "setStatus body t = t\<lparr>status := body_status body\<rparr>"

definition Task_findByIdAndUpdate ::
  "objectId Task list \<Rightarrow> objectId \<Rightarrow> StatusBody \<Rightarrow>
   error + objectId Task option \<times> objectId Task list" where
  "Task_findByIdAndUpdate ts i body =
     (if body_status body \<notin> set status_enum
      then Inl (ValidationError [enumMessage (body_status body) ''status''])
      else Inr (map_option (setStatus body) (Task_findById ts i),
                updateOne (\<lambda>t. task_id t = i) (setStatus body) ts))"


subsection \<open>Export\<close>

text \<open>
  The query string of \<open>GET /api/tasks/export\<close>: the parameters the dashboard appends.
\<close>

record Query =
  q_department :: "string option"
  q_startDate :: "string option"
  q_endDate :: "string option"

text \<open>A row of the worksheet, by column key, and the worksheet.\<close>

record Row =
  col_id :: objectId
  col_title :: string
  col_description :: "string option"
  col_status :: string
  col_priority :: string
  col_dueDate :: string
  col_employee :: string
  col_department :: string
  col_createdAt :: string

record Column =
  header :: string
  key :: string
  width :: nat

record Worksheet =
  sheet_name :: string
  columns :: "Column list"
  rows :: "Row list"
  row1_bold :: bool

record ExportResponse =
  contentType :: string
  contentDisposition :: string
  workbook :: Worksheet

text \<open>
  \<open>populate({ path: 'employeeId', select: 'name department' })\<close>: the owner's projection
  in place of the id, null when no user has the id.
\<close>

definition populate :: "User list \<Rightarrow> objectId Task \<Rightarrow> Employee option Task" where
  "populate us t =
     \<lparr>task_id = task_id t, title = title t, description = description t, status = status t,
      priority = priority t, dueDate = dueDate t, createdAt = createdAt t,
      employeeId =
        map_option (\<lambda>u. \<lparr>user_id = user_id u, name = name u, department = department u\<rparr>)
          (User_findById us (employeeId t))\<rparr>"

text \<open>\<open>getTasks\<close>: the objects the admin dashboard receives for the tasks of a store.\<close>

definition transformTask :: "Employee option Task \<Rightarrow> error + TaskView" where
  "transformTask task =
     (case employeeId task of
        None \<Rightarrow> Inl (TypeError (cannot_read ''_id''))
      | Some e \<Rightarrow>
          Inr \<lparr>task_id = task_id task, title = title task, description = description task,
               status = status task, priority = priority task, dueDate = dueDate task,
               createdAt = createdAt task,
               employee = \<lparr>user_id = user_id e, name = name e, department = department e\<rparr>\<rparr>)"

fun transformedTasks :: "Employee option Task list \<Rightarrow> error + TaskView list" where
  "transformedTasks [] = Inr []"
| "transformedTasks (task # ts) =
     (case transformTask task of
        Inl e \<Rightarrow> Inl e
      | Inr v \<Rightarrow>
          (case transformedTasks ts of
             Inl e \<Rightarrow> Inl e
           | Inr vs \<Rightarrow> Inr (v # vs)))"

definition getTasks :: "Store \<Rightarrow> error + TaskView list" where
  "getTasks st = transformedTasks (map (populate (users st)) (tasks st))"

text \<open>
  The row \<open>worksheet.addRow\<close> gets for a task; \<open>toLocaleDateString\<close> is a parameter.
  Reading \<open>task.employeeId.name\<close> of a task whose owner is null throws.
\<close>

definition taskRow :: "(date \<Rightarrow> string) \<Rightarrow> Employee option Task \<Rightarrow> error + Row" where
  "taskRow toLocaleDateString task =
     (case employeeId task of
        None \<Rightarrow> Inl (TypeError (cannot_read ''name''))
      | Some e \<Rightarrow>
          Inr \<lparr>col_id = task_id task, col_title = title task,
               col_description = description task, col_status = status task,
               col_priority = priority task,
               col_dueDate =
                 (case dueDate task of None \<Rightarrow> ''No date set''
                  | Some d \<Rightarrow> toLocaleDateString d),
               col_employee = name e, col_department = department e,
               col_createdAt = toLocaleDateString (createdAt task)\<rparr>)"

fun addRows :: "(date \<Rightarrow> string) \<Rightarrow> Employee option Task list \<Rightarrow> error + Row list" where
  "addRows toLocaleDateString [] = Inr []"
| "addRows toLocaleDateString (task # ts) =
     (case taskRow toLocaleDateString task of
        Inl e \<Rightarrow> Inl e
      | Inr r \<Rightarrow>
          (case addRows toLocaleDateString ts of
             Inl e \<Rightarrow> Inl e
           | Inr rs \<Rightarrow> Inr (r # rs)))"

definition worksheet_columns :: "Column list" where
  "worksheet_columns =
     [\<lparr>header = ''Task ID'', key = ''id'', width = 26\<rparr>,
      \<lparr>header = ''Title'', key = ''title'', width = 30\<rparr>,
      \<lparr>header = ''Description'', key = ''description'', width = 40\<rparr>,
      \<lparr>header = ''Status'', key = ''status'', width = 15\<rparr>,
      \<lparr>header = ''Priority'', key = ''priority'', width = 15\<rparr>,
      \<lparr>header = ''Due Date'', key = ''dueDate'', width = 15\<rparr>,
      \<lparr>header = ''Employee'', key = ''employee'', width = 20\<rparr>,
      \<lparr>header = ''Department'', key = ''department'', width = 20\<rparr>,
      \<lparr>header = ''Created At'', key = ''createdAt'', width = 20\<rparr>]"

text \<open>The tasks the query of \<open>exportTasks\<close> finds: all, or those of one department.\<close>

definition export_find :: "Store \<Rightarrow> Query \<Rightarrow> objectId Task list" where
  "export_find st q =
     (if truthy (q_department q) \<and> q_department q \<noteq> Some ''all''
      then
        (let employees = filter (\<lambda>u. department u = the (q_department q)) (users st);
             employeeIds = map user_id employees
         in filter (\<lambda>t. employeeId t \<in> set employeeIds) (tasks st))
      else tasks st)"

text \<open>
  \<open>exportTasks\<close>; \<open>nowISO\<close> is \<open>new Date().toISOString()\<close> at the time of the request.
\<close>

definition exportTasks ::
  "(date \<Rightarrow> string) \<Rightarrow> string \<Rightarrow> Store \<Rightarrow> User \<Rightarrow> Query \<Rightarrow> error + ExportResponse" where
  "exportTasks toLocaleDateString nowISO st user q =
     (if role user \<noteq> ''admin''
      then Inl (ErrorResponse ''Not authorized to export tasks'' 401)
      else
        (case addRows toLocaleDateString (map (populate (users st)) (export_find st q)) of
           Inl e \<Rightarrow> Inl e
         | Inr rs \<Rightarrow>
             Inr \<lparr>contentType =
                    ''application/vnd.openxmlformats-officedocument.spreadsheetml.sheet'',
                  contentDisposition =
                    ''attachment; filename=tasks-'' @ take 10 nowISO @ ''.xlsx'',
                  workbook =
                    \<lparr>sheet_name = ''Tasks'', columns = worksheet_columns, rows = rs,
                     row1_bold = True\<rparr>\<rparr>))"

text \<open>
  middleware/auth.js \<open>authorize(...roles)\<close>, and the route
  \<open>router.route('/export').get(authorize('admin'), exportTasks)\<close>.
\<close>

definition authorize :: "string list \<Rightarrow> User \<Rightarrow> error option" where
  "authorize roles user =
     (if role user \<notin> set roles
      then Some (ErrorResponse
                  (''User role '' @ role user @ '' is not authorized to access this route'') 403)
      else None)"

definition route_export ::
  "(date \<Rightarrow> string) \<Rightarrow> string \<Rightarrow> Store \<Rightarrow> User \<Rightarrow> Query \<Rightarrow> error + ExportResponse" where
  "route_export toLocaleDateString nowISO st user q =
     (case authorize [''admin''] user of
        Some e \<Rightarrow> Inl e
      | None \<Rightarrow> exportTasks toLocaleDateString nowISO st user q)"

section \<open>Client: the dashboards\<close>

text \<open>
  \<open>d.setHours(0, 0, 0, 0)\<close> moves a date to the midnight that starts its local day. The
  local time zone is a fixed offset \<open>tz\<close> from UTC, in milliseconds; a change of the offset
  within the period looked at (daylight saving) is outside this model.
\<close>

definition setHours0 :: "int \<Rightarrow> date \<Rightarrow> date" where
  "setHours0 tz d = d - (d + tz) mod 86400000"

text \<open>
  The quick filter of the employee dashboard; \<open>now\<close> is the value of \<open>new Date()\<close>.
\<close>

definition overdue :: "int \<Rightarrow> date \<Rightarrow> 'a TaskFields_scheme \<Rightarrow> bool" where
  "overdue tz now task =
     (case dueDate task of
        None \<Rightarrow> False
      | Some d \<Rightarrow> setHours0 tz d < setHours0 tz now \<and> status task \<noteq> ''Done'')"

definition EmployeeDashboard_filteredTasks ::
  "int \<Rightarrow> date \<Rightarrow> string \<Rightarrow> 'a TaskFields_scheme list \<Rightarrow> 'a TaskFields_scheme list" where
  "EmployeeDashboard_filteredTasks tz now flt ts =
     (if flt = ''todo'' then filter (\<lambda>task. status task = ''To Do'') ts
      else if flt = ''inprogress'' then filter (\<lambda>task. status task = ''In Progress'') ts
      else if flt = ''review'' then filter (\<lambda>task. status task = ''Review'') ts
      else if flt = ''done'' then filter (\<lambda>task. status task = ''Done'') ts
      else if flt = ''urgent'' then filter (\<lambda>task. priority task = ''Urgent'') ts
      else if flt = ''high'' then filter (\<lambda>task. priority task = ''High'') ts
      else if flt = ''overdue'' then filter (overdue tz now) ts
      else ts)"

text \<open>
  \<open>toLowerCase\<close>: among the code units below 256 the upper-case letters are
  \<open>A\<close> to \<open>Z\<close> (65 to 90) and the accented capitals 192 to 214 and 216 to 222; the
  lower-case letter of each is 32 above it. \<open>s.includes(t)\<close> (here
  \<open>includes_str s t\<close>): \<open>t\<close> occurs in \<open>s\<close>.
\<close>

definition isUpperCase :: "char \<Rightarrow> bool" where
  "isUpperCase c =
     (let n = of_char c :: nat
      in (65 \<le> n \<and> n \<le> 90) \<or> (192 \<le> n \<and> n \<le> 214) \<or> (216 \<le> n \<and> n \<le> 222))"

definition toLowerChar :: "char \<Rightarrow> char" where
  "toLowerChar c = (if isUpperCase c then char_of (of_char c + 32 :: nat) else c)"

definition toLowerCase :: "string \<Rightarrow> string" where
  "toLowerCase s = map toLowerChar s"

fun startsWith :: "string \<Rightarrow> string \<Rightarrow> bool" where
  "startsWith s [] = True"
| "startsWith [] (c # t) = False"
| "startsWith (a # s) (c # t) = (a = c \<and> startsWith s t)"

fun includes_str :: "string \<Rightarrow> string \<Rightarrow> bool" where
  "includes_str [] t = (t = [])"
| "includes_str (a # s) t = (startsWith (a # s) t \<or> includes_str s t)"

text \<open>
  The date range the picker hands over: each bound is the string of a date input, or
  null. \<open>parseDate\<close> is \<open>new Date(string)\<close>, a parameter.
\<close>

record DateRange =
  startDate :: "string option"
  endDate :: "string option"

definition inDateRange :: "(string \<Rightarrow> date) \<Rightarrow> int \<Rightarrow> DateRange \<Rightarrow> TaskView \<Rightarrow> bool" where
  "inDateRange parseDate tz dateRange task =
     (case dueDate task of
        None \<Rightarrow> False
      | Some d \<Rightarrow>
          (let taskDate = setHours0 tz d;
               isAfterStart =
                 (if truthy (startDate dateRange)
                  then setHours0 tz (parseDate (the (startDate dateRange))) \<le> taskDate
                  else True);
               isBeforeEnd =
                 (if truthy (endDate dateRange)
                  then taskDate \<le> setHours0 tz (parseDate (the (endDate dateRange)))
                  else True)
           in isAfterStart \<and> isBeforeEnd))"

definition matchesSearch :: "string \<Rightarrow> TaskView \<Rightarrow> bool" where
  "matchesSearch term task =
     (includes_str (toLowerCase (title task)) term \<or>
      (truthy (description task) \<and> includes_str (toLowerCase (the (description task))) term) \<or>
      includes_str (toLowerCase (name (employee task))) term)"

text \<open>
  \<open>filteredTasks\<close> of the admin dashboard (the version with search, date range and
  export): department, then date range, then search term.
\<close>

definition AdminDashboard_filteredTasks ::
  "(string \<Rightarrow> date) \<Rightarrow> int \<Rightarrow> string \<Rightarrow> DateRange option \<Rightarrow> string \<Rightarrow>
   TaskView list \<Rightarrow> TaskView list" where
  "AdminDashboard_filteredTasks parseDate tz selectedDepartment dateRange searchTerm ts =
     (let filtered0 =
            (if selectedDepartment = ''all'' then ts
             else filter (\<lambda>task. department (employee task) = selectedDepartment) ts);
          filtered1 =
            (case dateRange of
               None \<Rightarrow> filtered0
             | Some dr \<Rightarrow> filter (inDateRange parseDate tz dr) filtered0);
          filtered2 =
            (if trim searchTerm \<noteq> []
             then filter (matchesSearch (toLowerCase searchTerm)) filtered1
             else filtered1)
      in filtered2)"

text \<open>\<open>filteredTasks\<close> of src/AdminDashboard.js, the dashboard with the department only.\<close>

definition AdminDashboard_js_filteredTasks :: "string \<Rightarrow> TaskView list \<Rightarrow> TaskView list" where
  "AdminDashboard_js_filteredTasks selectedDepartment ts =
     (if selectedDepartment = ''all'' then ts
      else filter (\<lambda>task. department (employee task) = selectedDepartment) ts)"

text \<open>
  \<open>Array.prototype.sort(compareFn)\<close> is stable and puts \<open>a\<close> before \<open>b\<close> when
  \<open>compareFn(a, b)\<close> is negative; for a comparison that orders the elements, its result is
  the one of this insertion sort. \<open>fetchTasksAndDepartments\<close> sorts what it fetched with
  \<open>new Date(b.createdAt) - new Date(a.createdAt)\<close>.
\<close>

fun insert_by :: "('a \<Rightarrow> 'a \<Rightarrow> int) \<Rightarrow> 'a \<Rightarrow> 'a list \<Rightarrow> 'a list" where
  "insert_by compareFn x [] = [x]"
| "insert_by compareFn x (y # ys) =
     (if compareFn x y \<le> 0 then x # y # ys else y # insert_by compareFn x ys)"

definition Array_sort :: "('a \<Rightarrow> 'a \<Rightarrow> int) \<Rightarrow> 'a list \<Rightarrow> 'a list" where
  "Array_sort compareFn xs = foldr (insert_by compareFn) xs []"

definition sortedTasks :: "TaskView list \<Rightarrow> TaskView list" where
  "sortedTasks data = Array_sort (\<lambda>a b. createdAt b - createdAt a) data"

subsection \<open>handleExport\<close>

text \<open>
  What the export dialog hands to \<open>handleExport\<close>, the query parameters it builds and the
  name under which it saves the download.
\<close>

record ExportOptions =
  opt_type :: string
  opt_department :: string
  opt_dateRange :: "DateRange option"

definition handleExport_params :: "ExportOptions \<Rightarrow> Query" where
  "handleExport_params exportOptions =
     \<lparr>q_department =
        (if opt_department exportOptions \<noteq> ''all'' then Some (opt_department exportOptions)
         else None),
      q_startDate =
        (case opt_dateRange exportOptions of
           None \<Rightarrow> None
         | Some dr \<Rightarrow> if truthy (startDate dr) then startDate dr else None),
      q_endDate =
        (case opt_dateRange exportOptions of
           None \<Rightarrow> None
         | Some dr \<Rightarrow> if truthy (endDate dr) then endDate dr else None)\<rparr>"

definition handleExport_filename :: "ExportOptions \<Rightarrow> string" where
  "handleExport_filename exportOptions =
     (let dept =
            (if opt_department exportOptions = ''all'' then ''all-departments''
             else opt_department exportOptions);
          dateStr =
            (case opt_dateRange exportOptions of
               None \<Rightarrow> []
             | Some dr \<Rightarrow>
                 if truthy (startDate dr)
                 then ''-'' @ filter (\<lambda>c. c \<noteq> CHR ''-'') (the (startDate dr))
                 else []);
          extension = (if opt_type exportOptions = ''excel'' then ''xlsx'' else ''pdf'')
      in ''tasks-'' @ dept @ dateStr @ ''.'' @ extension)"

section \<open>The seed data\<close>

text \<open>
  The users and tasks of seed.js. The database assigns the ids and the creation times;
  the ones here stand for them. Passwords are stored hashed: \<open>hash:p\<close> stands for the
  bcrypt hash of \<open>p\<close>.
\<close>

definition admin :: User where
  "admin = \<lparr>user_id = ''u0'', name = ''Admin User'', department = ''Management'',
            email = ''admin@example.com'', password = ''hash:password123'', role = ''admin''\<rparr>"

definition engineer1 :: User where
  "engineer1 = \<lparr>user_id = ''u1'', name = ''John Developer'', department = ''Engineering'',
                email = ''john@example.com'', password = ''hash:password123'',
                role = ''employee''\<rparr>"

definition marketer1 :: User where
  "marketer1 = \<lparr>user_id = ''u2'', name = ''Sarah Marketer'', department = ''Marketing'',
                email = ''sarah@example.com'', password = ''hash:password123'',
                role = ''employee''\<rparr>"

definition sales1 :: User where
  "sales1 = \<lparr>user_id = ''u3'', name = ''Mike Sales'', department = ''Sales'',
             email = ''mike@example.com'', password = ''hash:password123'',
             role = ''employee''\<rparr>"



definition task1 :: "objectId Task" where
  "task1 = \<lparr>task_id = ''t1'', title = ''Develop API endpoints'',
            description = Some ''Create REST API endpoints for the task manager'',
            status = ''In Progress'', priority = ''High'', dueDate = Some 1746403200000,
            createdAt = 1745000000001, employeeId = ''u1''\<rparr>"

definition task2 :: "objectId Task" where
  "task2 = \<lparr>task_id = ''t2'', title = ''Fix frontend bugs'',
            description = Some ''Address UI issues in the dashboard'',
            status = ''To Do'', priority = ''Medium'', dueDate = Some 1746835200000,
            createdAt = 1745000000002, employeeId = ''u1''\<rparr>"

definition task3 :: "objectId Task" where
  "task3 = \<lparr>task_id = ''t3'', title = ''Create marketing campaign'',
            description = Some ''Develop Q2 marketing campaign for new product launch'',
            status = ''In Progress'', priority = ''High'', dueDate = Some 1747267200000,
            createdAt = 1745000000003, employeeId = ''u2''\<rparr>"

definition task4 :: "objectId Task" where
  "task4 = \<lparr>task_id = ''t4'', title = ''Contact new leads'',
            description = Some ''Reach out to potential customers from the trade show'',
            status = ''To Do'', priority = ''Urgent'', dueDate = Some 1745539200000,
            createdAt = 1745000000004, employeeId = ''u3''\<rparr>"

definition task5 :: "objectId Task" where
  "task5 = \<lparr>task_id = ''t5'', title = ''Prepare sales report'',
            description = Some ''Compile Q1 sales figures for management review'',
            status = ''Done'', priority = ''Medium'', dueDate = Some 1744243200000,
            createdAt = 1745000000005, employeeId = ''u3''\<rparr>"

definition seed :: Store where
  "seed = \<lparr>users = [admin, engineer1, marketer1, sales1],
           tasks = [task1, task2, task3, task4, task5]\<rparr>"

text \<open>
  The objects \<open>getTasks\<close> sends for the seed, the rendering of the seed's dates by
  \<open>toLocaleDateString\<close> (en-US, UTC; by day number, other days are not needed), and a
  stand-in for the signed token.
\<close>

definition seed_views :: "TaskView list" where
  "seed_views = (case getTasks seed of Inl e \<Rightarrow> [] | Inr vs \<Rightarrow> vs)"

definition seed_toLocaleDateString :: "date \<Rightarrow> string" where
  "seed_toLocaleDateString d =
     (case map_of [(20188, ''4/10/2025''), (20196, ''4/18/2025''), (20203, ''4/25/2025''),
                   (20213, ''5/5/2025''), (20218, ''5/10/2025''), (20223, ''5/15/2025'')]
             (d div 86400000) of
        None \<Rightarrow> []
      | Some s \<Rightarrow> s)"


text \<open>
  Four tasks more, as the dashboard receives them once they have been created through
  the API. Two are John's: they write \<open>bug\<close> in capitals, and their due dates have a
  time of day (4 May 2025, 20:00 UTC, and 10 May 2025, 12:00 UTC). One is Mike's, without
  a due date, and one is Sarah's, due on 4 May 2025 at 10:00 UTC.
\<close>

definition late_views :: "TaskView list" where
  "late_views =
    [\<lparr>task_id = ''t6'', title = ''Triage BUG reports'', description = None,
      status = ''To Do'', priority = ''High'', dueDate = Some 1746388800000,
      createdAt = 1745000000006,
      employee = \<lparr>user_id = ''u1'', name = ''John Developer'', department = ''Engineering''\<rparr>\<rparr>,
     \<lparr>task_id = ''t7'', title = ''Write release notes'',
      description = Some ''After the DeBugging session'',
      status = ''To Do'', priority = ''Low'', dueDate = Some 1746878400000,
      createdAt = 1745000000007,
      employee = \<lparr>user_id = ''u1'', name = ''John Developer'', department = ''Engineering''\<rparr>\<rparr>,
     \<lparr>task_id = ''t8'', title = ''Bug bounty invoices'', description = None,
      status = ''To Do'', priority = ''Medium'', dueDate = None,
      createdAt = 1745000000008,
      employee = \<lparr>user_id = ''u3'', name = ''Mike Sales'', department = ''Sales''\<rparr>\<rparr>,
     \<lparr>task_id = ''t9'', title = ''Plan the summer fair'', description = Some [],
      status = ''To Do'', priority = ''Medium'', dueDate = Some 1746352800000,
      createdAt = 1745000000009,
      employee = \<lparr>user_id = ''u2'', name = ''Sarah Marketer'', department = ''Marketing''\<rparr>\<rparr>]"

text \<open>
  \<open>new Date(string)\<close> on the date strings used below (a date without a time is
  midnight UTC), and two request bodies: one sets the status to \<open>Done\<close>, the other to
  a value outside the enum of TaskSchema.
\<close>

definition seed_parseDate :: "string \<Rightarrow> date" where
  "seed_parseDate s =
     (case map_of [(''2025-04-25'', 1745539200000), (''2025-05-05'', 1746403200000),
                   (''2025-05-10'', 1746835200000)] s of
        None \<Rightarrow> 0
      | Some d \<Rightarrow> d)"

definition done_body :: StatusBody where
  "done_body = \<lparr>body_status = ''Done''\<rparr>"

definition blocked_body :: StatusBody where
  "blocked_body = \<lparr>body_status = ''Blocked''\<rparr>"

section \<open>Notions of the specification\<close>

text \<open>
  Two characters are the same letter when they are equal or one is an upper-case
  letter and the other its lower-case letter: in Latin-1 the upper-case letters have the
  codes 65 to 90 (\<open>A\<close> to \<open>Z\<close>), 192 to 214 and 216 to 222, and the lower-case letter
  of each has the code 32 above. \<open>t\<close> occurs in \<open>s\<close> as a substring when case is
  ignored: some part of \<open>s\<close> is \<open>t\<close>, letter by letter.
\<close>

definition upper_codes :: "nat set" where
  "upper_codes = {65..90} \<union> {192..214} \<union> {216..222}"

definition same_letter :: "char \<Rightarrow> char \<Rightarrow> bool" where
  "same_letter a b =
     (a = b \<or> (of_char a \<in> upper_codes \<and> (of_char b :: nat) = of_char a + 32)
            \<or> (of_char b \<in> upper_codes \<and> (of_char a :: nat) = of_char b + 32))"

definition contains_ci :: "string \<Rightarrow> string \<Rightarrow> bool" where
  "contains_ci s t = (\<exists>ps m ss. s = ps @ m @ ss \<and> list_all2 same_letter m t)"


section \<open>Lemmas\<close>

lemmas seed_defs = seed_def admin_def engineer1_def marketer1_def sales1_def
  task1_def task2_def task3_def task4_def task5_def

subsection \<open>Local days\<close>

text \<open>
  The local midnight of a date is fixed by the number of its local day,
  \<open>(d + tz) div 86400000\<close>.
\<close>

lemma setHours0_day: "setHours0 tz d = 86400000 * ((d + tz) div 86400000) - tz"
proof -
  have "(d + tz) mod 86400000 = (d + tz) - 86400000 * ((d + tz) div 86400000)"
    by (simp add: minus_mult_div_eq_mod)
  then show ?thesis by (simp add: setHours0_def)
qed

lemma setHours0_less_iff:
  "setHours0 tz a < setHours0 tz b \<longleftrightarrow> (a + tz) div 86400000 < (b + tz) div 86400000"
  by (simp add: setHours0_day)

lemma setHours0_le_iff:
  "setHours0 tz a \<le> setHours0 tz b \<longleftrightarrow> (a + tz) div 86400000 \<le> (b + tz) div 86400000"
  by (simp add: setHours0_day)

subsection \<open>Strings\<close>

lemma startsWith_iff: "startsWith s t \<longleftrightarrow> (\<exists>ss. s = t @ ss)"
  by (induction s t rule: startsWith.induct) auto

lemma includes_str_iff: "includes_str s t \<longleftrightarrow> (\<exists>ps ss. s = ps @ t @ ss)"
proof (induction s)
  case Nil
  then show ?case by auto
next
  case (Cons a s)
  show ?case
  proof
    assume "includes_str (a # s) t"
    then consider "startsWith (a # s) t" | "includes_str s t" by auto
    then show "\<exists>ps ss. a # s = ps @ t @ ss"
    proof cases
      case 1
      then obtain ss where "a # s = t @ ss" by (auto simp: startsWith_iff)
      then have "a # s = [] @ t @ ss" by simp
      then show ?thesis by blast
    next
      case 2
      then obtain ps ss where "s = ps @ t @ ss" using Cons.IH by auto
      then have "a # s = (a # ps) @ t @ ss" by simp
      then show ?thesis by blast
    qed
  next
    assume "\<exists>ps ss. a # s = ps @ t @ ss"
    then obtain ps ss where eq: "a # s = ps @ t @ ss" by auto
    show "includes_str (a # s) t"
    proof (cases ps)
      case Nil
      with eq have "startsWith (a # s) t" by (auto simp: startsWith_iff)
      then show ?thesis by simp
    next
      case (Cons p ps')
      with eq have "s = ps' @ t @ ss" by simp
      then have "includes_str s t" using Cons.IH by auto
      then show ?thesis by simp
    qed
  qed
qed

text \<open>
  \<open>toLowerCase\<close> sends two characters to the same one exactly when they are the same
  letter.
\<close>

lemma isUpperCase_iff: "isUpperCase a \<longleftrightarrow> of_char a \<in> upper_codes"
  by (auto simp: isUpperCase_def upper_codes_def Let_def)

lemma upper_bound: "isUpperCase a \<Longrightarrow> (of_char a :: nat) + 32 < 256"
  by (auto simp: isUpperCase_def Let_def)

lemma lower_not_upper:
  "isUpperCase a \<Longrightarrow> (of_char b :: nat) = of_char a + 32 \<Longrightarrow> \<not> isUpperCase b"
  by (auto simp: isUpperCase_def Let_def)

lemma of_char_toLowerChar:
  "(of_char (toLowerChar a) :: nat) = (if isUpperCase a then of_char a + 32 else of_char a)"
  using upper_bound [of a] by (simp add: toLowerChar_def)

lemma toLowerChar_eq_iff: "toLowerChar a = toLowerChar b \<longleftrightarrow> same_letter a b"
proof -
  have "toLowerChar a = toLowerChar b \<longleftrightarrow>
        (of_char (toLowerChar a) :: nat) = of_char (toLowerChar b)"
    by simp
  also have "\<dots> \<longleftrightarrow> same_letter a b"
  proof (cases "isUpperCase a"; cases "isUpperCase b")
    assume "isUpperCase a" "isUpperCase b"
    then show ?thesis
      using lower_not_upper [of a b] lower_not_upper [of b a]
      by (auto simp: of_char_toLowerChar same_letter_def isUpperCase_iff)
  next
    assume "isUpperCase a" "\<not> isUpperCase b"
    then show ?thesis
      by (auto simp: of_char_toLowerChar same_letter_def isUpperCase_iff)
  next
    assume "\<not> isUpperCase a" "isUpperCase b"
    then show ?thesis
      by (auto simp: of_char_toLowerChar same_letter_def isUpperCase_iff)
  next
    assume "\<not> isUpperCase a" "\<not> isUpperCase b"
    then show ?thesis
      by (auto simp: of_char_toLowerChar same_letter_def isUpperCase_iff)
  qed
  finally show ?thesis .
qed

lemma toLowerCase_eq_iff: "toLowerCase m = toLowerCase t \<longleftrightarrow> list_all2 same_letter m t"
  unfolding toLowerCase_def
proof (induction m arbitrary: t)
  case Nil
  then show ?case by auto
next
  case (Cons a m)
  then show ?case by (cases t) (auto simp: toLowerChar_eq_iff)
qed

lemma includes_lower_iff:
  "includes_str (toLowerCase s) (toLowerCase t) \<longleftrightarrow> contains_ci s t"
proof
  assume "includes_str (toLowerCase s) (toLowerCase t)"
  then obtain ps ss where "map toLowerChar s = ps @ map toLowerChar t @ ss"
    by (auto simp: includes_str_iff toLowerCase_def)
  then obtain ps' r where s: "s = ps' @ r" and r: "map toLowerChar t @ ss = map toLowerChar r"
    unfolding map_eq_append_conv by blast
  from r obtain m ss' where m: "r = m @ ss'" and "map toLowerChar t = map toLowerChar m"
    unfolding append_eq_map_conv by blast
  then have "toLowerCase m = toLowerCase t" by (simp add: toLowerCase_def)
  then have "list_all2 same_letter m t" by (simp add: toLowerCase_eq_iff)
  with s m show "contains_ci s t"
    by (auto simp: contains_ci_def)
next
  assume "contains_ci s t"
  then obtain ps m ss where s: "s = ps @ m @ ss" and "list_all2 same_letter m t"
    by (auto simp: contains_ci_def)
  then have "toLowerCase m = toLowerCase t" by (simp add: toLowerCase_eq_iff)
  with s have "toLowerCase s = toLowerCase ps @ toLowerCase t @ toLowerCase ss"
    by (simp add: toLowerCase_def)
  then show "includes_str (toLowerCase s) (toLowerCase t)"
    unfolding includes_str_iff by blast
qed

lemma contains_ci_Nil: "t \<noteq> [] \<Longrightarrow> \<not> contains_ci [] t"
  by (auto simp: contains_ci_def)

lemma trim_nonempty: "trim s \<noteq> [] \<Longrightarrow> s \<noteq> []"
  by (auto simp: trim_def)

subsection \<open>The filters of the admin dashboard\<close>

text \<open>The three steps of \<open>filteredTasks\<close> are one filter by the conjunction of their tests.\<close>

lemma filteredTasks_filter:
  "AdminDashboard_filteredTasks pd tz dep dr term ts =
     filter (\<lambda>t. (dep = ''all'' \<or> department (employee t) = dep) \<and>
                 (case dr of None \<Rightarrow> True | Some r \<Rightarrow> inDateRange pd tz r t) \<and>
                 (trim term = [] \<or> matchesSearch (toLowerCase term) t)) ts"
  by (cases dr) (auto simp: AdminDashboard_filteredTasks_def Let_def intro: filter_cong)

lemma matchesSearch_iff:
  assumes "t \<noteq> []"
  shows "matchesSearch (toLowerCase t) v \<longleftrightarrow>
    contains_ci (title v) t \<or> (\<exists>d. description v = Some d \<and> contains_ci d t) \<or>
    contains_ci (name (employee v)) t"
proof (cases "description v")
  case None
  then show ?thesis by (simp add: matchesSearch_def includes_lower_iff)
next
  case (Some d)
  then show ?thesis using assms contains_ci_Nil [of t]
    by (cases "d = []") (auto simp: matchesSearch_def includes_lower_iff)
qed

lemma department_search:
  assumes "dep \<noteq> ''all''" "trim term \<noteq> []"
  shows "AdminDashboard_filteredTasks pd tz dep None term ts =
    filter (\<lambda>v. department (employee v) = dep \<and>
      (contains_ci (title v) term \<or> (\<exists>d. description v = Some d \<and> contains_ci d term) \<or>
       contains_ci (name (employee v)) term)) ts"
  using assms trim_nonempty [of "term"]
  by (simp add: filteredTasks_filter matchesSearch_iff)

lemma trim_bug: "trim ''bug'' = ''bug''"
  by (simp add: trim_def isSpace_def)

subsection \<open>Sorting\<close>

lemma insert_by_mset: "mset (insert_by c x xs) = add_mset x (mset xs)"
  by (induction xs) auto

lemma insert_by_set: "set (insert_by c x xs) = insert x (set xs)"
  by (induction xs) auto

lemma Array_sort_mset: "mset (Array_sort c xs) = mset xs"
  by (induction xs) (auto simp: Array_sort_def insert_by_mset)

lemma insert_by_desc:
  "sorted_wrt (\<lambda>a b. createdAt b \<le> createdAt a) xs \<Longrightarrow>
   sorted_wrt (\<lambda>a b. createdAt b \<le> createdAt a)
     (insert_by (\<lambda>a b. createdAt b - createdAt a) x xs)"
  by (induction xs) (auto simp: insert_by_set)

lemma sortedTasks_desc: "sorted_wrt (\<lambda>a b. createdAt b \<le> createdAt a) (sortedTasks data)"
  by (induction data) (auto simp: sortedTasks_def Array_sort_def insert_by_desc)

lemma desc_adjacent:
  assumes "sorted_wrt (\<lambda>a b. createdAt b \<le> createdAt a) xs" and "Suc i < length xs"
  shows "createdAt (xs ! Suc i) \<le> createdAt (xs ! i)"
  using sorted_wrt_nth_less [OF assms(1), of i "Suc i"] assms(2) by simp

subsection \<open>The store\<close>

lemma User_findById_None_iff: "User_findById us i = None \<longleftrightarrow> i \<notin> user_id ` set us"
  by (auto simp: User_findById_def find_None_iff)

lemma find_deleteOne: "find P xs = Some x \<Longrightarrow> deleteOne P xs = remove1 x xs"
proof (induction xs)
  case Nil
  then show ?case by simp
next
  case (Cons y ys)
  show ?case
  proof (cases "P y")
    case True
    with Cons.prems show ?thesis by simp
  next
    case False
    with Cons.prems have f: "find P ys = Some x" by simp
    then have "P x" by (auto simp: find_Some_iff)
    with False have "x \<noteq> y" by auto
    with False f Cons.IH show ?thesis by simp
  qed
qed

subsection \<open>Login\<close>

text \<open>
  An error of the comparison is the answer of \<open>login\<close>, when the email is that of a user.
\<close>

lemma login_compare_rejects:
  "e \<noteq> [] \<Longrightarrow> truthy_value p \<Longrightarrow> find (\<lambda>u. email u = e) us = Some u \<Longrightarrow>
   cmp p (password u) = Inl err \<Longrightarrow> login cmp tok query us (Str e) p = Inl err"
  by (simp add: login_def User_findOne_def matchPassword_def)

subsection \<open>Export\<close>

lemma export_find_department:
  "dep \<noteq> [] \<Longrightarrow> dep \<noteq> ''all'' \<Longrightarrow>
   export_find st \<lparr>q_department = Some dep, q_startDate = s, q_endDate = e\<rparr> =
     filter (\<lambda>t. \<exists>u \<in> set (users st). user_id u = employeeId t \<and> department u = dep) (tasks st)"
proof -
  have "employeeId t \<in> set (map user_id (filter (\<lambda>u. department u = dep) (users st))) \<longleftrightarrow>
        (\<exists>u \<in> set (users st). user_id u = employeeId t \<and> department u = dep)"
    for t :: "objectId Task"
    by (auto simp: image_iff)
  then show ?thesis if "dep \<noteq> []" "dep \<noteq> ''all''"
    using that by (simp add: export_find_def Let_def del: set_map set_filter)
qed

lemma export_find_dates:
  "export_find st \<lparr>q_department = d, q_startDate = s, q_endDate = e\<rparr> =
   export_find st \<lparr>q_department = d, q_startDate = s', q_endDate = e'\<rparr>"
  by (simp add: export_find_def)

lemma exportTasks_find:
  "export_find st q = export_find st q' \<Longrightarrow>
   exportTasks fmt now st user q = exportTasks fmt now st user q'"
  by (simp only: exportTasks_def)

lemma addRows_populate:
  "\<forall>t \<in> set ts. User_findById us (employeeId t) \<noteq> None \<Longrightarrow>
   \<exists>rs. addRows fmt (map (populate us) ts) = Inr rs \<and> map col_id rs = map task_id ts"
  by (induction ts) (auto simp: populate_def taskRow_def)

lemma exportTasks_Inr:
  assumes "role user = ''admin''"
    and "addRows fmt (map (populate (users st)) (export_find st q)) = Inr rs"
  shows "\<exists>r. exportTasks fmt now st user q = Inr r \<and> rows (workbook r) = rs"
  using assms by (simp add: exportTasks_def)

subsection \<open>The seed\<close>

lemma seed_views_eq:
  "seed_views =
    [\<lparr>task_id = ''t1'', title = ''Develop API endpoints'',
      description = Some ''Create REST API endpoints for the task manager'',
      status = ''In Progress'', priority = ''High'', dueDate = Some 1746403200000,
      createdAt = 1745000000001,
      employee = \<lparr>user_id = ''u1'', name = ''John Developer'', department = ''Engineering''\<rparr>\<rparr>,
     \<lparr>task_id = ''t2'', title = ''Fix frontend bugs'',
      description = Some ''Address UI issues in the dashboard'',
      status = ''To Do'', priority = ''Medium'', dueDate = Some 1746835200000,
      createdAt = 1745000000002,
      employee = \<lparr>user_id = ''u1'', name = ''John Developer'', department = ''Engineering''\<rparr>\<rparr>,
     \<lparr>task_id = ''t3'', title = ''Create marketing campaign'',
      description = Some ''Develop Q2 marketing campaign for new product launch'',
      status = ''In Progress'', priority = ''High'', dueDate = Some 1747267200000,
      createdAt = 1745000000003,
      employee = \<lparr>user_id = ''u2'', name = ''Sarah Marketer'', department = ''Marketing''\<rparr>\<rparr>,
     \<lparr>task_id = ''t4'', title = ''Contact new leads'',
      description = Some ''Reach out to potential customers from the trade show'',
      status = ''To Do'', priority = ''Urgent'', dueDate = Some 1745539200000,
      createdAt = 1745000000004,
      employee = \<lparr>user_id = ''u3'', name = ''Mike Sales'', department = ''Sales''\<rparr>\<rparr>,
     \<lparr>task_id = ''t5'', title = ''Prepare sales report'',
      description = Some ''Compile Q1 sales figures for management review'',
      status = ''Done'', priority = ''Medium'', dueDate = Some 1744243200000,
      createdAt = 1745000000005,
      employee = \<lparr>user_id = ''u3'', name = ''Mike Sales'', department = ''Sales''\<rparr>\<rparr>]"
  by (simp add: seed_views_def getTasks_def seed_defs populate_def User_findById_def
      transformTask_def)

lemma find_t1: "Task_findById (tasks seed) ''t1'' = Some task1"
  by (simp add: Task_findById_def seed_def task1_def)

lemma seed_sales:
  "filter (\<lambda>t. \<exists>u \<in> set (users seed). user_id u = employeeId t \<and> department u = ''Sales'')
     (tasks seed) = [task4, task5]"
  by (simp add: seed_defs)

lemma sortedTasks_seed:
  "map task_id (sortedTasks seed_views) = [''t5'', ''t4'', ''t3'', ''t2'', ''t1'']"
  by (simp add: sortedTasks_def Array_sort_def seed_views_eq)

section \<open>The claims\<close>

subsection \<open>C1: who may update and delete a task\<close>

text \<open>
  C1 says that update and delete of a task succeed if and only if the actor is an
  administrator or the task's owner. For delete this holds; an update by the owner fails
  all the same when \<open>findByIdAndUpdate\<close> refuses the body. Here John, the owner of task
  \<open>t1\<close>, sets its status to \<open>Blocked\<close>, which is not in the enum of TaskSchema: the
  update throws the validation error, which the error handler answers with status 400
  and the message of the validator, and the store is as before.
\<close>

theorem update_invalid_body_counterexample:
  "Task_findById (tasks seed) ''t1'' = Some task1 \<and> user_id engineer1 = employeeId task1 \<and>
   updateTask Task_findByIdAndUpdate seed engineer1 ''t1'' blocked_body =
     (Inl (ValidationError [enumMessage ''Blocked'' ''status'']), seed) \<and>
   errorHandler (ValidationError [enumMessage ''Blocked'' ''status'']) =
     (400, enumMessage ''Blocked'' ''status'')"
  by (simp add: updateTask_def Task_findById_def Task_findByIdAndUpdate_def
      blocked_body_def status_enum_def seed_def task1_def engineer1_def respond_def
      enumMessage_def)

text \<open>
  C1, as amended. Let \<open>task\<close> be the task of the store with id \<open>i\<close>, \<open>user\<close> any
  authenticated actor, and \<open>body\<close> any request body, whatever \<open>findByIdAndUpdate\<close> does
  with it.
  \<^item> When \<open>user\<close> is neither an administrator nor the owner of \<open>task\<close>, update and delete
    fail with the policy denial (an ErrorResponse of status 401, \<open>Not authorized to
    update/delete this task\<close>), and the store is as before.
  \<^item> When \<open>user\<close> is an administrator or the owner, delete succeeds and the store has
    lost exactly \<open>task\<close>; update answers what \<open>findByIdAndUpdate\<close> answers: when that
    accepts the body, the updated document, and the store is the one it leaves; when it
    throws, its error, and the store is as before.
  So delete succeeds if and only if the actor is an administrator or the owner, and
  update succeeds if and only if, in addition, \<open>findByIdAndUpdate\<close> accepts the body.
\<close>

theorem update_delete_owner_or_admin:
  assumes "Task_findById (tasks st) i = Some task"
  shows "(role user \<noteq> ''admin'' \<and> user_id user \<noteq> employeeId task \<longrightarrow>
            updateTask findByIdAndUpdate st user i body =
              (Inl (ErrorResponse ''Not authorized to update this task'' 401), st) \<and>
            deleteTask st user i =
              (Inl (ErrorResponse ''Not authorized to delete this task'' 401), st)) \<and>
         (role user = ''admin'' \<or> user_id user = employeeId task \<longrightarrow>
            deleteTask st user i = (Inr (), st\<lparr>tasks := remove1 task (tasks st)\<rparr>) \<and>
            (\<forall>task' ts'. findByIdAndUpdate (tasks st) i body = Inr (task', ts') \<longrightarrow>
               updateTask findByIdAndUpdate st user i body = (Inr task', st\<lparr>tasks := ts'\<rparr>)) \<and>
            (\<forall>e. findByIdAndUpdate (tasks st) i body = Inl e \<longrightarrow>
               updateTask findByIdAndUpdate st user i body = (Inl e, st))) \<and>
         ((\<exists>r st'. deleteTask st user i = (Inr r, st')) \<longleftrightarrow>
            role user = ''admin'' \<or> user_id user = employeeId task) \<and>
         ((\<exists>r st'. updateTask findByIdAndUpdate st user i body = (Inr r, st')) \<longleftrightarrow>
            (role user = ''admin'' \<or> user_id user = employeeId task) \<and>
            (\<exists>r. findByIdAndUpdate (tasks st) i body = Inr r))"
proof -
  from assms have f: "find (\<lambda>t. task_id t = i) (tasks st) = Some task"
    by (simp add: Task_findById_def)
  have del: "deleteOne (\<lambda>t. task_id t = i) (tasks st) = remove1 task (tasks st)"
    using f by (rule find_deleteOne)
  show ?thesis
    using assms del
    by (auto simp: updateTask_def deleteTask_def split: sum.splits)
qed

text \<open>
  On the seed, with \<open>findByIdAndUpdate\<close> on the bodies that set the status: Sarah, who
  does not own \<open>t1\<close>, is refused; John, its owner, and the administrator delete it; John
  sets it to \<open>Done\<close>, and is refused \<open>Blocked\<close>.
\<close>

theorem update_delete_owner_or_admin_witness:
  "Task_findById (tasks seed) ''t1'' = Some task1 \<and>
   updateTask Task_findByIdAndUpdate seed marketer1 ''t1'' done_body =
     (Inl (ErrorResponse ''Not authorized to update this task'' 401), seed) \<and>
   deleteTask seed marketer1 ''t1'' =
     (Inl (ErrorResponse ''Not authorized to delete this task'' 401), seed) \<and>
   deleteTask seed engineer1 ''t1'' = (Inr (), seed\<lparr>tasks := [task2, task3, task4, task5]\<rparr>) \<and>
   deleteTask seed admin ''t1'' = (Inr (), seed\<lparr>tasks := [task2, task3, task4, task5]\<rparr>) \<and>
   updateTask Task_findByIdAndUpdate seed engineer1 ''t1'' done_body =
     (Inr (Some (task1\<lparr>status := ''Done''\<rparr>)),
      seed\<lparr>tasks := [task1\<lparr>status := ''Done''\<rparr>, task2, task3, task4, task5]\<rparr>) \<and>
   updateTask Task_findByIdAndUpdate seed engineer1 ''t1'' blocked_body =
     (Inl (ValidationError [enumMessage ''Blocked'' ''status'']), seed)"
proof -
  note th = update_delete_owner_or_admin [OF find_t1]
  have m: "role marketer1 \<noteq> ''admin'' \<and> user_id marketer1 \<noteq> employeeId task1"
    by (simp add: marketer1_def task1_def)
  have o: "user_id engineer1 = employeeId task1" by (simp add: engineer1_def task1_def)
  have a: "role admin = ''admin''" by (simp add: admin_def)
  have v: "Task_findByIdAndUpdate (tasks seed) ''t1'' done_body =
      Inr (Some (task1\<lparr>status := ''Done''\<rparr>),
           [task1\<lparr>status := ''Done''\<rparr>, task2, task3, task4, task5])"
    by (simp add: Task_findByIdAndUpdate_def Task_findById_def done_body_def status_enum_def
        setStatus_def seed_def task1_def)
  have nv: "Task_findByIdAndUpdate (tasks seed) ''t1'' blocked_body =
      Inl (ValidationError [enumMessage ''Blocked'' ''status''])"
    by (simp add: Task_findByIdAndUpdate_def blocked_body_def status_enum_def)
  have r: "remove1 task1 (tasks seed) = [task2, task3, task4, task5]"
    by (simp add: seed_def)
  from th [where user = marketer1 and body = done_body
      and findByIdAndUpdate = Task_findByIdAndUpdate] m
  have 1: "updateTask Task_findByIdAndUpdate seed marketer1 ''t1'' done_body =
     (Inl (ErrorResponse ''Not authorized to update this task'' 401), seed)"
    and 2: "deleteTask seed marketer1 ''t1'' =
     (Inl (ErrorResponse ''Not authorized to delete this task'' 401), seed)"
    by blast+
  from th [where user = engineer1 and body = done_body
      and findByIdAndUpdate = Task_findByIdAndUpdate] o r
  have 3: "deleteTask seed engineer1 ''t1'' =
     (Inr (), seed\<lparr>tasks := [task2, task3, task4, task5]\<rparr>)"
    by simp
  from th [where user = admin and body = done_body
      and findByIdAndUpdate = Task_findByIdAndUpdate] a r
  have 4: "deleteTask seed admin ''t1'' = (Inr (), seed\<lparr>tasks := [task2, task3, task4, task5]\<rparr>)"
    by simp
  from th [where user = engineer1 and body = done_body
      and findByIdAndUpdate = Task_findByIdAndUpdate] o v
  have 5: "updateTask Task_findByIdAndUpdate seed engineer1 ''t1'' done_body =
     (Inr (Some (task1\<lparr>status := ''Done''\<rparr>)),
      seed\<lparr>tasks := [task1\<lparr>status := ''Done''\<rparr>, task2, task3, task4, task5]\<rparr>)"
    by blast
  from th [where user = engineer1 and body = blocked_body
      and findByIdAndUpdate = Task_findByIdAndUpdate] o nv
  have 6: "updateTask Task_findByIdAndUpdate seed engineer1 ''t1'' blocked_body =
     (Inl (ValidationError [enumMessage ''Blocked'' ''status'']), seed)"
    by blast
  from find_t1 1 2 3 4 5 6 show ?thesis by blast
qed

subsection \<open>C2: the parameters of an export\<close>

text \<open>
  C2 says that the department and date-range parameters of an export touch the file name
  only, the rows being the same whatever their values. The department parameter selects
  the rows: on the seed, the administrator's export for \<open>Sales\<close> has the two rows of the
  tasks of Sales, and the export without a department has all five.
\<close>

theorem export_department_counterexample:
  "map_sum id (map col_id \<circ> rows \<circ> workbook)
     (exportTasks seed_toLocaleDateString ''2025-11-02T10:00:00.000Z'' seed admin
        \<lparr>q_department = Some ''Sales'', q_startDate = None, q_endDate = None\<rparr>) =
     Inr [''t4'', ''t5''] \<and>
   map_sum id (map col_id \<circ> rows \<circ> workbook)
     (exportTasks seed_toLocaleDateString ''2025-11-02T10:00:00.000Z'' seed admin
        \<lparr>q_department = None, q_startDate = None, q_endDate = None\<rparr>) =
     Inr [''t1'', ''t2'', ''t3'', ''t4'', ''t5'']"
  by (simp add: exportTasks_def export_find_def seed_defs populate_def taskRow_def
      User_findById_def)

text \<open>
  C2, as amended. The date-range parameters of an export have no effect on the artifact:
  for a fixed store and a fixed department parameter, \<open>exportTasks\<close> answers the same
  (the same rows, or the same error) whatever the start and end dates of the query are,
  and so does the request \<open>handleExport\<close> builds, whatever the date range chosen in the
  dialog is. The department parameter selects the rows: for an administrator and a
  department other than \<open>all\<close>, the export succeeds and its rows are, in the order of
  the store, those of the tasks that belong to a user of that department. The name
  under which the client saves the download is built from the export type, the
  department and the start date (its dashes removed); the end date goes into nothing.
\<close>

theorem export_date_range_ignored:
  "exportTasks fmt now st user \<lparr>q_department = d, q_startDate = s, q_endDate = e\<rparr> =
   exportTasks fmt now st user \<lparr>q_department = d, q_startDate = s', q_endDate = e'\<rparr> \<and>
   exportTasks fmt now st user (handleExport_params (opts\<lparr>opt_dateRange := dr\<rparr>)) =
   exportTasks fmt now st user (handleExport_params (opts\<lparr>opt_dateRange := dr'\<rparr>)) \<and>
   (role user = ''admin'' \<and> dep \<noteq> [] \<and> dep \<noteq> ''all'' \<longrightarrow>
      (\<exists>r. exportTasks fmt now st user \<lparr>q_department = Some dep, q_startDate = s, q_endDate = e\<rparr>
              = Inr r \<and>
           map col_id (rows (workbook r)) =
             map task_id
               (filter (\<lambda>t. \<exists>u \<in> set (users st). user_id u = employeeId t \<and> department u = dep)
                  (tasks st)))) \<and>
   handleExport_filename
     \<lparr>opt_type = ty, opt_department = dp,
      opt_dateRange = Some \<lparr>startDate = Some sd, endDate = ed\<rparr>\<rparr> =
     ''tasks-'' @ (if dp = ''all'' then ''all-departments'' else dp) @
     (if sd = [] then [] else ''-'' @ filter (\<lambda>c. c \<noteq> CHR ''-'') sd) @ ''.'' @
     (if ty = ''excel'' then ''xlsx'' else ''pdf'')"
proof -
  have a: "exportTasks fmt now st user \<lparr>q_department = d, q_startDate = s, q_endDate = e\<rparr> =
   exportTasks fmt now st user \<lparr>q_department = d, q_startDate = s', q_endDate = e'\<rparr>"
    by (rule exportTasks_find) (rule export_find_dates)
  have "export_find st (handleExport_params (opts\<lparr>opt_dateRange := dr\<rparr>)) =
        export_find st (handleExport_params (opts\<lparr>opt_dateRange := dr'\<rparr>))"
    by (simp add: export_find_def handleExport_params_def)
  then have b: "exportTasks fmt now st user (handleExport_params (opts\<lparr>opt_dateRange := dr\<rparr>)) =
   exportTasks fmt now st user (handleExport_params (opts\<lparr>opt_dateRange := dr'\<rparr>))"
    by (rule exportTasks_find)
  have c: "\<exists>r. exportTasks fmt now st user \<lparr>q_department = Some dep, q_startDate = s, q_endDate = e\<rparr>
              = Inr r \<and>
           map col_id (rows (workbook r)) =
             map task_id
               (filter (\<lambda>t. \<exists>u \<in> set (users st). user_id u = employeeId t \<and> department u = dep)
                  (tasks st))"
    if adm: "role user = ''admin''" and dep: "dep \<noteq> []" "dep \<noteq> ''all''"
  proof -
    let ?sel = "filter (\<lambda>t. \<exists>u \<in> set (users st). user_id u = employeeId t \<and> department u = dep)
                  (tasks st)"
    let ?q = "\<lparr>q_department = Some dep, q_startDate = s, q_endDate = e\<rparr>"
    have sel: "export_find st ?q = ?sel"
      using dep by (rule export_find_department)
    have "\<forall>t \<in> set ?sel. User_findById (users st) (employeeId t) \<noteq> None"
      by (auto simp: User_findById_def find_None_iff)
    then obtain rs where rs: "addRows fmt (map (populate (users st)) ?sel) = Inr rs"
        "map col_id rs = map task_id ?sel"
      using addRows_populate by blast
    from rs(1) have "addRows fmt (map (populate (users st)) (export_find st ?q)) = Inr rs"
      by (simp only: sel)
    from exportTasks_Inr [OF adm this] rs(2) show ?thesis by auto
  qed
  have f: "handleExport_filename
     \<lparr>opt_type = ty, opt_department = dp,
      opt_dateRange = Some \<lparr>startDate = Some sd, endDate = ed\<rparr>\<rparr> =
     ''tasks-'' @ (if dp = ''all'' then ''all-departments'' else dp) @
     (if sd = [] then [] else ''-'' @ filter (\<lambda>c. c \<noteq> CHR ''-'') sd) @ ''.'' @
     (if ty = ''excel'' then ''xlsx'' else ''pdf'')"
    by (simp add: handleExport_filename_def)
  from a b c f show ?thesis by blast
qed

text \<open>
  On the seed: the administrator's export for Sales, with a date range that holds none
  of the due dates of Sales, has the rows of both tasks of Sales; the client saves it as
  \<open>tasks-Sales-20250505.xlsx\<close>.
\<close>

theorem export_date_range_ignored_witness:
  "role admin = ''admin'' \<and>
   map_sum id (map col_id \<circ> rows \<circ> workbook)
     (exportTasks seed_toLocaleDateString ''2025-11-02T10:00:00.000Z'' seed admin
        \<lparr>q_department = Some ''Sales'', q_startDate = Some ''2025-05-05'',
         q_endDate = Some ''2025-05-10''\<rparr>) = Inr [''t4'', ''t5''] \<and>
   handleExport_filename
     \<lparr>opt_type = ''excel'', opt_department = ''Sales'',
      opt_dateRange = Some \<lparr>startDate = Some ''2025-05-05'', endDate = Some ''2025-05-10''\<rparr>\<rparr> =
     ''tasks-Sales-20250505.xlsx''"
proof -
  have a: "role admin = ''admin''" by (simp add: admin_def)
  have d: "''Sales'' \<noteq> []" "''Sales'' \<noteq> ''all''" by simp_all
  have ids: "map task_id [task4, task5] = [''t4'', ''t5'']" by (simp add: task4_def task5_def)
  note th = export_date_range_ignored [where fmt = seed_toLocaleDateString
      and now = "''2025-11-02T10:00:00.000Z''" and st = seed and user = admin
      and s = "Some ''2025-05-05''" and e = "Some ''2025-05-10''" and dep = "''Sales''"
      and ty = "''excel''" and dp = "''Sales''" and sd = "''2025-05-05''"
      and ed = "Some ''2025-05-10''"]
  from th a d
  have "\<exists>r. exportTasks seed_toLocaleDateString ''2025-11-02T10:00:00.000Z'' seed admin
           \<lparr>q_department = Some ''Sales'', q_startDate = Some ''2025-05-05'',
            q_endDate = Some ''2025-05-10''\<rparr> = Inr r \<and>
        map col_id (rows (workbook r)) = [''t4'', ''t5'']"
    unfolding seed_sales ids by blast
  then have 1: "map_sum id (map col_id \<circ> rows \<circ> workbook)
     (exportTasks seed_toLocaleDateString ''2025-11-02T10:00:00.000Z'' seed admin
        \<lparr>q_department = Some ''Sales'', q_startDate = Some ''2025-05-05'',
         q_endDate = Some ''2025-05-10''\<rparr>) = Inr [''t4'', ''t5'']"
    by auto
  from th have "handleExport_filename
     \<lparr>opt_type = ''excel'', opt_department = ''Sales'',
      opt_dateRange = Some \<lparr>startDate = Some ''2025-05-05'', endDate = Some ''2025-05-10''\<rparr>\<rparr> =
     ''tasks-'' @ (if ''Sales'' = ''all'' then ''all-departments'' else ''Sales'') @
     (if ''2025-05-05'' = [] then [] else ''-'' @ filter (\<lambda>c. c \<noteq> CHR ''-'') ''2025-05-05'') @
     ''.'' @ (if ''excel'' = ''excel'' then ''xlsx'' else ''pdf'')"
    by blast
  then have 2: "handleExport_filename
     \<lparr>opt_type = ''excel'', opt_department = ''Sales'',
      opt_dateRange = Some \<lparr>startDate = Some ''2025-05-05'', endDate = Some ''2025-05-10''\<rparr>\<rparr> =
     ''tasks-Sales-20250505.xlsx''"
    by simp
  from a 1 2 show ?thesis by blast
qed

subsection \<open>C3: the overdue filter\<close>

text \<open>
  C3. For every task list, the overdue quick filter of the employee dashboard keeps, in
  their order, exactly the tasks that have a due date whose local day is before the
  local day of now and whose status is not \<open>Done\<close> (the local day of a date \<open>d\<close> is
  \<open>(d + tz) div 86400000\<close>). So a task of the list that is due yesterday and not done is
  included; a task due today is excluded; a task that is done is excluded whatever its
  due date; and a task with no due date is excluded.
\<close>

theorem overdue_quick_filter:
  fixes ts :: "'a TaskFields_scheme list"
  shows
  "EmployeeDashboard_filteredTasks tz now ''overdue'' ts =
     filter (\<lambda>t. \<exists>d. dueDate t = Some d \<and> (d + tz) div 86400000 < (now + tz) div 86400000 \<and>
                     status t \<noteq> ''Done'') ts \<and>
   (\<forall>t d. t \<in> set ts \<and> dueDate t = Some d \<and> status t \<noteq> ''Done'' \<and>
           (d + tz) div 86400000 = (now + tz) div 86400000 - 1 \<longrightarrow>
           t \<in> set (EmployeeDashboard_filteredTasks tz now ''overdue'' ts)) \<and>
   (\<forall>t d. dueDate t = Some d \<and> (d + tz) div 86400000 = (now + tz) div 86400000 \<longrightarrow>
           t \<notin> set (EmployeeDashboard_filteredTasks tz now ''overdue'' ts)) \<and>
   (\<forall>t. status t = ''Done'' \<longrightarrow>
        t \<notin> set (EmployeeDashboard_filteredTasks tz now ''overdue'' ts)) \<and>
   (\<forall>t. dueDate t = None \<longrightarrow>
        t \<notin> set (EmployeeDashboard_filteredTasks tz now ''overdue'' ts))"
proof -
  have eq: "EmployeeDashboard_filteredTasks tz now ''overdue'' ts =
     filter (\<lambda>t. \<exists>d. dueDate t = Some d \<and> (d + tz) div 86400000 < (now + tz) div 86400000 \<and>
                     status t \<noteq> ''Done'') ts"
    by (auto simp: EmployeeDashboard_filteredTasks_def overdue_def setHours0_less_iff
        intro!: filter_cong split: option.splits)
  show ?thesis
    unfolding eq by auto
qed

text \<open>
  On the seed, five and a half hours east of UTC: on 26 April 2025 the task \<open>t4\<close>, due
  on 25 April and not done, is overdue; on 25 April it is not; \<open>t5\<close>, done and due on
  10 April, is not; and a task without a due date is not.
\<close>

theorem overdue_quick_filter_witness:
  "task4 \<in> set (EmployeeDashboard_filteredTasks 19800000 1745661600000 ''overdue'' (tasks seed)) \<and>
   task4 \<notin> set (EmployeeDashboard_filteredTasks 19800000 1745575200000 ''overdue'' (tasks seed)) \<and>
   task5 \<notin> set (EmployeeDashboard_filteredTasks 19800000 1745661600000 ''overdue'' (tasks seed)) \<and>
   task1\<lparr>dueDate := None\<rparr> \<notin>
     set (EmployeeDashboard_filteredTasks 19800000 1745661600000 ''overdue''
            (task1\<lparr>dueDate := None\<rparr> # tasks seed))"
proof -
  note th = overdue_quick_filter [where tz = 19800000 and ts = "tasks seed"]
  have m: "task4 \<in> set (tasks seed)" by (simp add: seed_def)
  have d: "dueDate task4 = Some 1745539200000" "status task4 \<noteq> ''Done''"
    by (simp_all add: task4_def)
  have y: "(1745539200000 + 19800000) div 86400000 =
           ((1745661600000 + 19800000) div 86400000 - 1 :: int)"
    by simp
  have t: "(1745539200000 + 19800000) div 86400000 =
           ((1745575200000 + 19800000) div 86400000 :: int)"
    by simp
  have s5: "status task5 = ''Done''" by (simp add: task5_def)
  have n: "dueDate (task1\<lparr>dueDate := None\<rparr>) = None" by simp
  from th [where now = 1745661600000] m d y
  have 1: "task4 \<in>
      set (EmployeeDashboard_filteredTasks 19800000 1745661600000 ''overdue'' (tasks seed))"
    by blast
  from th [where now = 1745575200000] d(1) t
  have 2: "task4 \<notin>
      set (EmployeeDashboard_filteredTasks 19800000 1745575200000 ''overdue'' (tasks seed))"
    by blast
  from th [where now = 1745661600000] s5
  have 3: "task5 \<notin>
      set (EmployeeDashboard_filteredTasks 19800000 1745661600000 ''overdue'' (tasks seed))"
    by blast
  from overdue_quick_filter [where tz = 19800000 and now = 1745661600000
      and ts = "task1\<lparr>dueDate := None\<rparr> # tasks seed"] n
  have 4: "task1\<lparr>dueDate := None\<rparr> \<notin>
     set (EmployeeDashboard_filteredTasks 19800000 1745661600000 ''overdue''
            (task1\<lparr>dueDate := None\<rparr> # tasks seed))"
    by blast
  from 1 2 3 4 show ?thesis by blast
qed

subsection \<open>C4: the errors of a failed login\<close>




subsection \<open>C5: the date-range filter\<close>

text \<open>
  C5. The midnight a date is normalized to is the start of its local day: the one
  moment at a multiple of 24 hours from local midnight that is at or before the date and
  less than 24 hours before it. So two dates compare after normalization as their local
  days do, and the local day of a date \<open>d\<close> has the number \<open>(d + tz) div 86400000\<close>.

  For every task list, with a date range that has a start bound only, the tasks the
  admin dashboard shows are exactly those it shows without a date range that have a due
  date whose day is the day of the start bound or a later one (so a task due on the day
  of the bound, at any time of that day, is kept); with both bounds they are those whose
  due date lies on a day from the day of the start bound to the day of the end bound,
  both included. Under any date range, no task without a due date is shown.
\<close>

theorem date_range_filter:
  "((setHours0 tz d + tz) mod 86400000 = 0 \<and> setHours0 tz d \<le> d \<and>
    d < setHours0 tz d + 86400000) \<and>
   (s \<noteq> [] \<and> \<not> truthy e \<longrightarrow>
     AdminDashboard_filteredTasks pd tz dep (Some \<lparr>startDate = Some s, endDate = e\<rparr>) q ts =
     filter (\<lambda>v. \<exists>d. dueDate v = Some d \<and>
                     (pd s + tz) div 86400000 \<le> (d + tz) div 86400000)
       (AdminDashboard_filteredTasks pd tz dep None q ts)) \<and>
   (s \<noteq> [] \<and> e' \<noteq> [] \<longrightarrow>
     AdminDashboard_filteredTasks pd tz dep (Some \<lparr>startDate = Some s, endDate = Some e'\<rparr>) q ts =
     filter (\<lambda>v. \<exists>d. dueDate v = Some d \<and>
                     (pd s + tz) div 86400000 \<le> (d + tz) div 86400000 \<and>
                     (d + tz) div 86400000 \<le> (pd e' + tz) div 86400000)
       (AdminDashboard_filteredTasks pd tz dep None q ts)) \<and>
   (\<forall>v \<in> set (AdminDashboard_filteredTasks pd tz dep (Some r) q ts). dueDate v \<noteq> None)"
proof -
  have m: "(setHours0 tz d + tz) mod 86400000 = 0 \<and> setHours0 tz d \<le> d \<and>
      d < setHours0 tz d + 86400000"
  proof -
    have "setHours0 tz d + tz = 86400000 * ((d + tz) div 86400000)"
      by (simp add: setHours0_day)
    then have "(setHours0 tz d + tz) mod 86400000 = 0" by simp
    moreover have "0 \<le> (d + tz) mod 86400000" "(d + tz) mod 86400000 < 86400000"
      by simp_all
    ultimately show ?thesis by (simp add: setHours0_def)
  qed
  have a: "AdminDashboard_filteredTasks pd tz dep (Some \<lparr>startDate = Some s, endDate = e\<rparr>) q ts =
     filter (\<lambda>v. \<exists>d. dueDate v = Some d \<and>
                     (pd s + tz) div 86400000 \<le> (d + tz) div 86400000)
       (AdminDashboard_filteredTasks pd tz dep None q ts)"
    if "s \<noteq> []" "\<not> truthy e"
    using that
    by (auto simp: filteredTasks_filter inDateRange_def Let_def setHours0_le_iff
        intro!: filter_cong split: option.splits)
  have b: "AdminDashboard_filteredTasks pd tz dep (Some \<lparr>startDate = Some s, endDate = Some e'\<rparr>) q ts =
     filter (\<lambda>v. \<exists>d. dueDate v = Some d \<and>
                     (pd s + tz) div 86400000 \<le> (d + tz) div 86400000 \<and>
                     (d + tz) div 86400000 \<le> (pd e' + tz) div 86400000)
       (AdminDashboard_filteredTasks pd tz dep None q ts)"
    if "s \<noteq> []" "e' \<noteq> []"
    using that
    by (auto simp: filteredTasks_filter inDateRange_def Let_def setHours0_le_iff
        intro!: filter_cong split: option.splits)
  have c: "\<forall>v \<in> set (AdminDashboard_filteredTasks pd tz dep (Some r) q ts). dueDate v \<noteq> None"
    by (auto simp: filteredTasks_filter inDateRange_def split: option.splits)
  from m a b c show ?thesis by blast
qed

text \<open>
  On the seed and the four later tasks, in a time zone five and a half hours ahead of
  UTC, where the bound \<open>2025-05-05\<close> (midnight UTC) is 05:30 of 5 May. From 5 May on,
  the tasks due on 5, 10 and 15 May are kept, and with them \<open>t6\<close>, due at 01:30 of
  5 May local time, before the time of day of the bound, and \<open>t7\<close>; \<open>t9\<close>, due at 15:30
  of 4 May, and \<open>t8\<close>, without a due date, are not. From 5 May to 10 May, the task due
  on 15 May is dropped, and \<open>t7\<close>, due at 17:30 of 10 May local time, after the time of
  day of the bound, is kept.
\<close>

theorem date_range_filter_witness:
  "''2025-05-05'' \<noteq> [] \<and> \<not> truthy None \<and> ''2025-05-10'' \<noteq> [] \<and>
   map task_id (AdminDashboard_filteredTasks seed_parseDate 19800000 ''all''
      (Some \<lparr>startDate = Some ''2025-05-05'', endDate = None\<rparr>) [] (seed_views @ late_views)) =
     [''t1'', ''t2'', ''t3'', ''t6'', ''t7''] \<and>
   map task_id (AdminDashboard_filteredTasks seed_parseDate 19800000 ''all''
      (Some \<lparr>startDate = Some ''2025-05-05'', endDate = Some ''2025-05-10''\<rparr>) []
      (seed_views @ late_views)) =
     [''t1'', ''t2'', ''t6'', ''t7'']"
proof -
  have none: "AdminDashboard_filteredTasks seed_parseDate 19800000 ''all'' None []
      (seed_views @ late_views) = seed_views @ late_views"
    by (simp add: AdminDashboard_filteredTasks_def trim_def)
  have s: "''2025-05-05'' \<noteq> []" "\<not> truthy None" "''2025-05-10'' \<noteq> []" by simp_all
  note th = date_range_filter [where pd = seed_parseDate and tz = 19800000 and dep = "''all''"
      and s = "''2025-05-05''" and e = None and e' = "''2025-05-10''"
      and ts = "seed_views @ late_views" and q = "[]"]
  from th s have 1: "AdminDashboard_filteredTasks seed_parseDate 19800000 ''all''
      (Some \<lparr>startDate = Some ''2025-05-05'', endDate = None\<rparr>) [] (seed_views @ late_views) =
      filter (\<lambda>v. \<exists>d. dueDate v = Some d \<and>
          (seed_parseDate ''2025-05-05'' + 19800000) div 86400000 \<le> (d + 19800000) div 86400000)
        (seed_views @ late_views)"
    unfolding none by blast
  from th s have 2: "AdminDashboard_filteredTasks seed_parseDate 19800000 ''all''
      (Some \<lparr>startDate = Some ''2025-05-05'', endDate = Some ''2025-05-10''\<rparr>) []
      (seed_views @ late_views) =
      filter (\<lambda>v. \<exists>d. dueDate v = Some d \<and>
          (seed_parseDate ''2025-05-05'' + 19800000) div 86400000 \<le> (d + 19800000) div 86400000 \<and>
          (d + 19800000) div 86400000 \<le> (seed_parseDate ''2025-05-10'' + 19800000) div 86400000)
        (seed_views @ late_views)"
    unfolding none by blast
  have 3: "map task_id (filter (\<lambda>v. \<exists>d. dueDate v = Some d \<and>
          (seed_parseDate ''2025-05-05'' + 19800000) div 86400000 \<le> (d + 19800000) div 86400000)
        (seed_views @ late_views)) = [''t1'', ''t2'', ''t3'', ''t6'', ''t7'']"
    by (simp add: seed_views_eq late_views_def seed_parseDate_def)
  have 4: "map task_id (filter (\<lambda>v. \<exists>d. dueDate v = Some d \<and>
          (seed_parseDate ''2025-05-05'' + 19800000) div 86400000 \<le> (d + 19800000) div 86400000 \<and>
          (d + 19800000) div 86400000 \<le> (seed_parseDate ''2025-05-10'' + 19800000) div 86400000)
        (seed_views @ late_views)) = [''t1'', ''t2'', ''t6'', ''t7'']"
    by (simp add: seed_views_eq late_views_def seed_parseDate_def)
  from s 3 4 show ?thesis unfolding 1 2 by blast
qed

subsection \<open>C6: department and search\<close>

text \<open>
  C6. For every task list, with the department \<open>Engineering\<close> and the search term
  \<open>bug\<close> (and no date range) the admin dashboard shows, in their order, exactly the
  tasks whose owner's department is Engineering and whose title, description or
  owner's name contains \<open>bug\<close> when case is ignored. The filters compose by
  intersection: what is shown under a department, a date range and a search term is
  what is shown under each of them alone; and the search is applied last, to what the
  other filters leave. The dashboard with the department only shows the tasks of the
  department.
\<close>

theorem department_and_search:
  "AdminDashboard_filteredTasks pd tz ''Engineering'' None ''bug'' ts =
     filter (\<lambda>v. department (employee v) = ''Engineering'' \<and>
       (contains_ci (title v) ''bug'' \<or> (\<exists>d. description v = Some d \<and> contains_ci d ''bug'') \<or>
        contains_ci (name (employee v)) ''bug'')) ts \<and>
   set (AdminDashboard_filteredTasks pd tz dep dr q ts) =
     set (AdminDashboard_filteredTasks pd tz dep None [] ts) \<inter>
     set (AdminDashboard_filteredTasks pd tz ''all'' dr [] ts) \<inter>
     set (AdminDashboard_filteredTasks pd tz ''all'' None q ts) \<and>
   AdminDashboard_filteredTasks pd tz dep dr q ts =
     AdminDashboard_filteredTasks pd tz ''all'' None q
       (AdminDashboard_filteredTasks pd tz dep dr [] ts) \<and>
   AdminDashboard_js_filteredTasks ''Engineering'' ts =
     filter (\<lambda>v. department (employee v) = ''Engineering'') ts"
proof -
  have a: "AdminDashboard_filteredTasks pd tz ''Engineering'' None ''bug'' ts =
     filter (\<lambda>v. department (employee v) = ''Engineering'' \<and>
       (contains_ci (title v) ''bug'' \<or> (\<exists>d. description v = Some d \<and> contains_ci d ''bug'') \<or>
        contains_ci (name (employee v)) ''bug'')) ts"
    by (rule department_search) (simp_all add: trim_bug)
  have b: "set (AdminDashboard_filteredTasks pd tz dep dr q ts) =
     set (AdminDashboard_filteredTasks pd tz dep None [] ts) \<inter>
     set (AdminDashboard_filteredTasks pd tz ''all'' dr [] ts) \<inter>
     set (AdminDashboard_filteredTasks pd tz ''all'' None q ts)"
    by (auto simp: filteredTasks_filter trim_def)
  have c: "AdminDashboard_filteredTasks pd tz dep dr q ts =
     AdminDashboard_filteredTasks pd tz ''all'' None q
       (AdminDashboard_filteredTasks pd tz dep dr [] ts)"
    by (auto simp: filteredTasks_filter trim_def intro: filter_cong)
  have d: "AdminDashboard_js_filteredTasks ''Engineering'' ts =
     filter (\<lambda>v. department (employee v) = ''Engineering'') ts"
    by (simp add: AdminDashboard_js_filteredTasks_def)
  from a b c d show ?thesis by blast
qed

text \<open>
  On the seed and the four later tasks, the tasks of Engineering that contain \<open>bug\<close>
  are \<open>Fix frontend bugs\<close>, \<open>Triage BUG reports\<close> and the one whose description has the
  word \<open>DeBugging\<close>; \<open>Bug bounty invoices\<close> is a task of Sales.
\<close>

theorem department_and_search_witness:
  "map task_id (AdminDashboard_filteredTasks seed_parseDate 19800000 ''Engineering'' None
     ''bug'' (seed_views @ late_views)) = [''t2'', ''t6'', ''t7''] \<and>
   map task_id
     (filter (\<lambda>v. department (employee v) = ''Engineering'' \<and>
        (contains_ci (title v) ''bug'' \<or> (\<exists>d. description v = Some d \<and> contains_ci d ''bug'') \<or>
         contains_ci (name (employee v)) ''bug'')) (seed_views @ late_views)) =
     [''t2'', ''t6'', ''t7'']"
proof -
  have ev: "map task_id (AdminDashboard_filteredTasks seed_parseDate 19800000 ''Engineering'' None
     ''bug'' (seed_views @ late_views)) = [''t2'', ''t6'', ''t7'']"
    by code_simp
  from department_and_search [where pd = seed_parseDate and tz = 19800000
      and ts = "seed_views @ late_views"]
  have eq: "AdminDashboard_filteredTasks seed_parseDate 19800000 ''Engineering'' None ''bug''
     (seed_views @ late_views) =
     filter (\<lambda>v. department (employee v) = ''Engineering'' \<and>
        (contains_ci (title v) ''bug'' \<or> (\<exists>d. description v = Some d \<and> contains_ci d ''bug'') \<or>
         contains_ci (name (employee v)) ''bug'')) (seed_views @ late_views)"
    by blast
  from ev have "map task_id
     (filter (\<lambda>v. department (employee v) = ''Engineering'' \<and>
        (contains_ci (title v) ''bug'' \<or> (\<exists>d. description v = Some d \<and> contains_ci d ''bug'') \<or>
         contains_ci (name (employee v)) ''bug'')) (seed_views @ late_views)) =
     [''t2'', ''t6'', ''t7'']"
    unfolding eq .
  with ev show ?thesis by blast
qed

subsection \<open>C7: filtering twice\<close>

text \<open>
  C7. For every task sequence and all filter values, filtering what the admin dashboard
  shows once more, with the same department and search term (and the same date range),
  gives what it shows.
\<close>

theorem filteredTasks_idempotent:
  "AdminDashboard_filteredTasks pd tz dep dr q (AdminDashboard_filteredTasks pd tz dep dr q ts) =
   AdminDashboard_filteredTasks pd tz dep dr q ts"
  by (simp add: filteredTasks_filter)

subsection \<open>C8: newest first\<close>

text \<open>
  C8. For every fetched task collection, the list the admin dashboard keeps is the
  collection sorted by creation time, newest first: it has the tasks of the collection,
  and of any two adjacent tasks the earlier in the list was created at or after the
  later. The same holds for the list it shows under any filter values.
\<close>

theorem default_order_newest_first:
  "(\<forall>i. Suc i < length (sortedTasks data) \<longrightarrow>
      createdAt (sortedTasks data ! Suc i) \<le> createdAt (sortedTasks data ! i)) \<and>
   mset (sortedTasks data) = mset data \<and>
   (\<forall>i. Suc i < length (AdminDashboard_filteredTasks pd tz dep dr q (sortedTasks data)) \<longrightarrow>
      createdAt (AdminDashboard_filteredTasks pd tz dep dr q (sortedTasks data) ! Suc i) \<le>
      createdAt (AdminDashboard_filteredTasks pd tz dep dr q (sortedTasks data) ! i))"
proof -
  have "sorted_wrt (\<lambda>a b. createdAt b \<le> createdAt a)
          (AdminDashboard_filteredTasks pd tz dep dr q (sortedTasks data))"
    unfolding filteredTasks_filter by (rule sorted_wrt_filter) (rule sortedTasks_desc)
  then show ?thesis
    using sortedTasks_desc [of data]
    by (auto simp: desc_adjacent sortedTasks_def Array_sort_mset)
qed

text \<open>On the seed, created in the order \<open>t1\<close> to \<open>t5\<close>, the list starts with \<open>t5\<close>.\<close>

theorem default_order_newest_first_witness:
  "map task_id (sortedTasks seed_views) = [''t5'', ''t4'', ''t3'', ''t2'', ''t1''] \<and>
   Suc 0 < length (sortedTasks seed_views) \<and>
   createdAt (sortedTasks seed_views ! Suc 0) \<le> createdAt (sortedTasks seed_views ! 0)"
proof -
  have "length (map task_id (sortedTasks seed_views)) = 5"
    unfolding sortedTasks_seed by simp
  then have l: "Suc 0 < length (sortedTasks seed_views)" by simp
  with default_order_newest_first [where data = seed_views]
  have "createdAt (sortedTasks seed_views ! Suc 0) \<le> createdAt (sortedTasks seed_views ! 0)"
    by blast
  with l sortedTasks_seed show ?thesis by blast
qed

subsection \<open>C9: the export of no tasks\<close>

text \<open>
  C9. For every export request of an administrator for which the query finds no task,
  \<open>exportTasks\<close> succeeds: the response is the workbook with the sheet \<open>Tasks\<close>, its nine
  column headers in bold and no row; the route, which checks the role once more before
  the controller, answers the same.
\<close>

theorem export_empty_headers_only:
  "role user = ''admin'' \<and> export_find st q = [] \<longrightarrow>
     exportTasks fmt now st user q =
       Inr \<lparr>contentType = ''application/vnd.openxmlformats-officedocument.spreadsheetml.sheet'',
            contentDisposition = ''attachment; filename=tasks-'' @ take 10 now @ ''.xlsx'',
            workbook = \<lparr>sheet_name = ''Tasks'', columns = worksheet_columns, rows = [],
                        row1_bold = True\<rparr>\<rparr> \<and>
     route_export fmt now st user q = exportTasks fmt now st user q \<and>
     map header worksheet_columns =
       [''Task ID'', ''Title'', ''Description'', ''Status'', ''Priority'', ''Due Date'',
        ''Employee'', ''Department'', ''Created At'']"
  by (simp add: exportTasks_def route_export_def authorize_def worksheet_columns_def)

text \<open>On the seed, no user is of the department HR, and its export has the headers only.\<close>

theorem export_empty_headers_only_witness:
  "role admin = ''admin'' \<and>
   export_find seed \<lparr>q_department = Some ''HR'', q_startDate = None, q_endDate = None\<rparr> = [] \<and>
   exportTasks seed_toLocaleDateString ''2025-11-02T10:00:00.000Z'' seed admin
     \<lparr>q_department = Some ''HR'', q_startDate = None, q_endDate = None\<rparr> =
     Inr \<lparr>contentType = ''application/vnd.openxmlformats-officedocument.spreadsheetml.sheet'',
          contentDisposition = ''attachment; filename=tasks-2025-11-02.xlsx'',
          workbook = \<lparr>sheet_name = ''Tasks'', columns = worksheet_columns, rows = [],
                      row1_bold = True\<rparr>\<rparr>"
proof -
  have a: "role admin = ''admin''" by (simp add: admin_def)
  have e: "export_find seed \<lparr>q_department = Some ''HR'', q_startDate = None, q_endDate = None\<rparr>
             = []"
    by (simp add: export_find_def seed_defs)
  from export_empty_headers_only [where user = admin and st = seed
      and q = "\<lparr>q_department = Some ''HR'', q_startDate = None, q_endDate = None\<rparr>"
      and fmt = seed_toLocaleDateString and now = "''2025-11-02T10:00:00.000Z''"] a e
  show ?thesis by simp
qed

subsection \<open>C10: the tasks of an employee who does not exist\<close>

text \<open>
  C10. For every authenticated actor and every employee id that no user of the store
  has, listing that employee's tasks fails with the 404 error \<open>No user with the id
  of ...\<close>: the existence of the user is checked before the role and the ownership,
  so an actor who is neither an administrator nor the owner of the id gets the 404 and
  not the authorization error.
\<close>

theorem getEmployeeTasks_absent_user_404:
  "i \<notin> user_id ` set (users st) \<longrightarrow>
     getEmployeeTasks st user i = Inl (ErrorResponse (''No user with the id of '' @ i) 404)"
  by (simp add: getEmployeeTasks_def User_findById_None_iff [symmetric])

text \<open>On the seed, John, an employee, asks for the tasks of the id \<open>u9\<close>.\<close>

theorem getEmployeeTasks_absent_user_404_witness:
  "''u9'' \<notin> user_id ` set (users seed) \<and> role engineer1 \<noteq> ''admin'' \<and>
   user_id engineer1 \<noteq> ''u9'' \<and>
   getEmployeeTasks seed engineer1 ''u9'' = Inl (ErrorResponse ''No user with the id of u9'' 404)"
proof -
  have h: "''u9'' \<notin> user_id ` set (users seed)" by (simp add: seed_defs)
  have e: "role engineer1 \<noteq> ''admin'' \<and> user_id engineer1 \<noteq> ''u9''"
    by (simp add: engineer1_def)
  from getEmployeeTasks_absent_user_404 [where i = "''u9''" and st = seed and user = engineer1] h e
  show ?thesis by simp
qed

end
